theory Spec2Isabelle
  imports Main
begin

section \<open>The Entrez client SDK: pubmedmcp/sdk.py\<close>

text \<open>
  The module holds two endpoint functions, \<open>einfo\<close> and \<open>esearch\<close>. Each one checks the
  return mode of the request, dumps the request to a dictionary of query parameters,
  issues one GET through the caller's client, raises on a failing HTTP status and parses
  the body into the response model.

  What the functions do besides returning a value is explicit here: an exception is the
  \<open>Inl\<close> side of a sum, and the GET is recorded in the client, which is passed in and
  returned.
\<close>

subsection \<open>Data\<close>

text \<open>
  Modelled from the spec: the members of the enumeration \<open>RetMode\<close>. The class is declared
  in pubmedmcp/models.py; sdk.py names the member \<open>JSON\<close> only, the specification gives
  "JSON, XML, plain text".
\<close>

datatype RetMode = JSON | XML | TEXT

text \<open>The values a request field can hold once the model is dumped in Python mode.\<close>

datatype pyval = PyStr string | PyInt int | PyRetMode RetMode

text \<open>
  Modelled from the spec: the fields of \<open>EInfoRequest\<close> (database name, API version and
  return mode, every one optional: \<open>None\<close> is Python's None). The class is declared in
  pubmedmcp/models.py.
\<close>

record EInfoRequest =
  db :: "string option"
  version :: "string option"
  retmode :: "RetMode option"

text \<open>
  Modelled from the spec: the fields of \<open>ESearchRequest\<close>, as the specification lists them for
  the ESearch endpoint. The class is declared in pubmedmcp/models.py.
\<close>

record ESearchRequest =
  s_db :: "string option"
  s_term :: "string option"
  s_retmode :: "RetMode option"
  s_retstart :: "int option"
  s_retmax :: "int option"
  s_datetype :: "string option"
  s_mindate :: "string option"
  s_maxdate :: "string option"
  s_usehistory :: "string option"

type_synonym query = "(string \<times> pyval) list"

text \<open>
  An \<open>httpx.Response\<close>: the status and the body, \<open>response.text\<close> in the source (the
  field is \<open>body_text\<close> here, \<open>text\<close> being a command of the theory language).
\<close>

record response =
  status_code :: int
  body_text :: string

text \<open>
  The exceptions that leave the two functions: the \<open>ValueError\<close> they raise themselves,
  an exception of the transport raised inside \<open>client.get\<close>, the \<open>HTTPStatusError\<close> of
  \<open>raise_for_status\<close>, which holds the response, and the validation error of the response
  model (of a type \<open>'v\<close> that the model decides).
\<close>

datatype 'v error =
    ValueError string
  | RequestError string
  | HTTPStatusError response
  | ValidationError 'v

text \<open>
  The caller's \<open>httpx.AsyncClient\<close>: how the remote side answers a GET (an exception of
  the transport or a response), and the requests issued through the client so far.
\<close>

record client =
  handler :: "string \<Rightarrow> query \<Rightarrow> string + response"
  calls :: "(string \<times> query) list"

subsection \<open>Constants and library calls\<close>

definition BASE_URL :: string where
  "BASE_URL = ''https://eutils.ncbi.nlm.nih.gov/entrez/eutils''"

text \<open>
  The fields of a request with their values, by name. \<open>model_dump(exclude_none=True)\<close>
  returns the dictionary of the fields whose value is not None.
\<close>

definition EInfoRequest_fields :: "EInfoRequest \<Rightarrow> (string \<times> pyval option) list" where
  "EInfoRequest_fields p =
     [(''db'', map_option PyStr (db p)),
      (''version'', map_option PyStr (version p)),
      (''retmode'', map_option PyRetMode (retmode p))]"

definition ESearchRequest_fields :: "ESearchRequest \<Rightarrow> (string \<times> pyval option) list" where
  "ESearchRequest_fields p =
     [(''db'', map_option PyStr (s_db p)),
      (''term'', map_option PyStr (s_term p)),
      (''retmode'', map_option PyRetMode (s_retmode p)),
      (''retstart'', map_option PyInt (s_retstart p)),
      (''retmax'', map_option PyInt (s_retmax p)),
      (''datetype'', map_option PyStr (s_datetype p)),
      (''mindate'', map_option PyStr (s_mindate p)),
      (''maxdate'', map_option PyStr (s_maxdate p)),
      (''usehistory'', map_option PyStr (s_usehistory p))]"

fun model_dump_exclude_none :: "(string \<times> pyval option) list \<Rightarrow> query" where
  "model_dump_exclude_none [] = []"
| "model_dump_exclude_none ((k, None) # fs) = model_dump_exclude_none fs"
| "model_dump_exclude_none ((k, Some v) # fs) = (k, v) # model_dump_exclude_none fs"

text \<open>
  A value inside an f-string. None is printed as \<open>None\<close>; how a member of \<open>RetMode\<close> is
  printed depends on the declaration of the class, so it is the parameter \<open>fmt\<close>.
\<close>

fun format_value :: "(RetMode \<Rightarrow> string) \<Rightarrow> RetMode option \<Rightarrow> string" where
  "format_value fmt None = ''None''"
| "format_value fmt (Some m) = fmt m"

text \<open>\<open>client.get(url, params=...)\<close>: the request is issued and the answer comes back.\<close>

definition client_get :: "client \<Rightarrow> string \<Rightarrow> query \<Rightarrow> (string + response) \<times> client" where
  "client_get c url q = (handler c url q, c\<lparr>calls := calls c @ [(url, q)]\<rparr>)"

text \<open>
  \<open>response.raise_for_status()\<close> of httpx: a status from 200 to 299 passes, every other
  status raises \<open>HTTPStatusError\<close> with the response.
\<close>

definition raise_for_status :: "response \<Rightarrow> 'v error + response" where
  "raise_for_status r =
     (if 200 \<le> status_code r \<and> status_code r \<le> 299 then Inr r
      else Inl (HTTPStatusError r))"

subsection \<open>The endpoint functions\<close>

text \<open>
  \<open>validate\<close> is \<open>EInfoResponse.model_validate_json\<close> (for \<open>esearch\<close>,
  \<open>ESearchResponse.model_validate_json\<close>): the response models are declared in
  pubmedmcp/models.py, so the parser is a parameter, from the body to a validation error
  or a response object.
\<close>

definition einfo ::
  "(string \<Rightarrow> 'v + 'r) \<Rightarrow> (RetMode \<Rightarrow> string) \<Rightarrow> client \<Rightarrow> EInfoRequest
     \<Rightarrow> ('v error + 'r) \<times> client" where
  "einfo validate fmt c params =
     (if retmode params \<noteq> Some JSON then
        (Inl (ValueError (''We only support '' @ format_value fmt (Some JSON)
                @ '' return mode for EInfo at this time. You provided ''
                @ format_value fmt (retmode params) @ ''.'')), c)
      else
        let base_url = BASE_URL @ ''/einfo.fcgi'';
            query_params = model_dump_exclude_none (EInfoRequest_fields params);
            (got, c') = client_get c base_url query_params
        in case got of
             Inl x \<Rightarrow> (Inl (RequestError x), c')
           | Inr resp \<Rightarrow>
               (case raise_for_status resp of
                  Inl e \<Rightarrow> (Inl e, c')
                | Inr ok \<Rightarrow>
                    (case validate (body_text resp) of
                       Inl v \<Rightarrow> (Inl (ValidationError v), c')
                     | Inr r \<Rightarrow> (Inr r, c'))))"

definition esearch ::
  "(string \<Rightarrow> 'v + 'r) \<Rightarrow> (RetMode \<Rightarrow> string) \<Rightarrow> client \<Rightarrow> ESearchRequest
     \<Rightarrow> ('v error + 'r) \<times> client" where
  "esearch validate fmt c params =
     (if s_retmode params \<noteq> Some JSON then
        (Inl (ValueError (''We only support '' @ format_value fmt (Some JSON)
                @ '' return mode for ESearch at this time. You provided ''
                @ format_value fmt (s_retmode params) @ ''.'')), c)
      else
        let base_url = BASE_URL @ ''/esearch.fcgi'';
            query_params = model_dump_exclude_none (ESearchRequest_fields params);
            (got, c') = client_get c base_url query_params
        in case got of
             Inl x \<Rightarrow> (Inl (RequestError x), c')
           | Inr resp \<Rightarrow>
               (case raise_for_status resp of
                  Inl e \<Rightarrow> (Inl e, c')
                | Inr ok \<Rightarrow>
                    (case validate (body_text resp) of
                       Inl v \<Rightarrow> (Inl (ValidationError v), c')
                     | Inr r \<Rightarrow> (Inr r, c'))))"

subsection \<open>The shared protocol\<close>


subsection \<open>Request constructors\<close>

text \<open>
  Modelled from the spec: \<open>EInfoRequest()\<close>, the request built with no argument. The class
  and the defaults of its fields are declared in pubmedmcp/models.py; the specification
  gives the database name and the API version as optional and the return mode as
  "optional return mode (defaults to JSON)".
\<close>

definition EInfoRequest_default :: EInfoRequest where
  "EInfoRequest_default = \<lparr>db = None, version = None, retmode = Some JSON\<rparr>"

text \<open>
  Modelled from the spec: \<open>ESearchRequest(term=t)\<close>, the request built from a term only. The
  class is declared in pubmedmcp/models.py. The filters are optional and hold no value;
  the return mode is JSON, as for \<open>EInfoRequest\<close>: the docstring of \<open>esearch\<close> gives
  \<open>esearch(client, ESearchRequest(term="asthma"))\<close> as its basic search and the
  specification has this call answered with a response, which \<open>esearch\<close> allows for the
  return mode JSON only.
\<close>

definition ESearchRequest_of_term :: "string \<Rightarrow> ESearchRequest" where
  "ESearchRequest_of_term t =
     \<lparr>s_db = None, s_term = Some t, s_retmode = Some JSON, s_retstart = None,
      s_retmax = None, s_datetype = None, s_mindate = None, s_maxdate = None,
      s_usehistory = None\<rparr>"

subsection \<open>The ways out of an endpoint function\<close>



subsection \<open>Values for the worked examples\<close>

text \<open>
  A transport mock: a client that has issued no request yet and whose remote side gives
  one fixed answer to every GET.
\<close>

definition fixed_client :: "string + response \<Rightarrow> client" where
  "fixed_client answer = \<lparr>handler = (\<lambda>url q. answer), calls = []\<rparr>"

text \<open>One way of printing the return modes, and a response model that takes any body but the empty one.\<close>

definition mode_name :: "RetMode \<Rightarrow> string" where
  "mode_name m = (case m of JSON \<Rightarrow> ''json'' | XML \<Rightarrow> ''xml'' | TEXT \<Rightarrow> ''text'')"

definition accept_nonempty :: "string \<Rightarrow> string + string" where
  "accept_nonempty body = (if body = [] then Inl ''empty body'' else Inr body)"


definition info_request :: EInfoRequest where
  "info_request = \<lparr>db = Some ''pubmed'', version = None, retmode = Some JSON\<rparr>"

definition search_request :: ESearchRequest where
  "search_request =
     \<lparr>s_db = None, s_term = Some ''asthma'', s_retmode = Some JSON, s_retstart = None,
      s_retmax = Some 20, s_datetype = None, s_mindate = None, s_maxdate = None,
      s_usehistory = None\<rparr>"

section \<open>Properties\<close>

subsection \<open>The two halves of an endpoint function\<close>

text \<open>
  A return mode other than JSON, None included, ends the call in the first statement,
  with the client as it was.
\<close>

lemma einfo_rejected:
  "retmode p \<noteq> Some JSON \<Longrightarrow>
   einfo v fmt c p =
     (Inl (ValueError (''We only support '' @ fmt JSON
             @ '' return mode for EInfo at this time. You provided ''
             @ format_value fmt (retmode p) @ ''.'')), c)"
  by (simp add: einfo_def)

lemma esearch_rejected:
  "s_retmode p \<noteq> Some JSON \<Longrightarrow>
   esearch v fmt c p =
     (Inl (ValueError (''We only support '' @ fmt JSON
             @ '' return mode for ESearch at this time. You provided ''
             @ format_value fmt (s_retmode p) @ ''.'')), c)"
  by (simp add: esearch_def)

text \<open>With the return mode JSON the request is issued, and the answer decides the result.\<close>

lemma einfo_accepted:
  "retmode p = Some JSON \<Longrightarrow>
   einfo v fmt c p =
     (case handler c (BASE_URL @ ''/einfo.fcgi'')
             (model_dump_exclude_none (EInfoRequest_fields p)) of
        Inl x \<Rightarrow> Inl (RequestError x)
      | Inr resp \<Rightarrow>
          if 200 \<le> status_code resp \<and> status_code resp \<le> 299
          then (case v (body_text resp) of Inl e \<Rightarrow> Inl (ValidationError e) | Inr r \<Rightarrow> Inr r)
          else Inl (HTTPStatusError resp),
      c\<lparr>calls := calls c @
          [(BASE_URL @ ''/einfo.fcgi'', model_dump_exclude_none (EInfoRequest_fields p))]\<rparr>)"
  by (simp add: einfo_def client_get_def raise_for_status_def split: sum.splits)

lemma esearch_accepted:
  "s_retmode p = Some JSON \<Longrightarrow>
   esearch v fmt c p =
     (case handler c (BASE_URL @ ''/esearch.fcgi'')
             (model_dump_exclude_none (ESearchRequest_fields p)) of
        Inl x \<Rightarrow> Inl (RequestError x)
      | Inr resp \<Rightarrow>
          if 200 \<le> status_code resp \<and> status_code resp \<le> 299
          then (case v (body_text resp) of Inl e \<Rightarrow> Inl (ValidationError e) | Inr r \<Rightarrow> Inr r)
          else Inl (HTTPStatusError resp),
      c\<lparr>calls := calls c @
          [(BASE_URL @ ''/esearch.fcgi'', model_dump_exclude_none (ESearchRequest_fields p))]\<rparr>)"
  by (simp add: esearch_def client_get_def raise_for_status_def split: sum.splits)

lemma einfo_calls:
  "calls (snd (einfo v fmt c p)) = calls c @
     (if retmode p = Some JSON
      then [(BASE_URL @ ''/einfo.fcgi'', model_dump_exclude_none (EInfoRequest_fields p))]
      else [])"
  by (cases "retmode p = Some JSON") (simp_all add: einfo_accepted einfo_rejected)

lemma esearch_calls:
  "calls (snd (esearch v fmt c p)) = calls c @
     (if s_retmode p = Some JSON
      then [(BASE_URL @ ''/esearch.fcgi'', model_dump_exclude_none (ESearchRequest_fields p))]
      else [])"
  by (cases "s_retmode p = Some JSON") (simp_all add: esearch_accepted esearch_rejected)

text \<open>The query parameters of the request that an accepted call issues.\<close>

lemma einfo_sent:
  "retmode p = Some JSON \<Longrightarrow>
   snd (last (calls (snd (einfo v fmt c p)))) = model_dump_exclude_none (EInfoRequest_fields p)"
  by (simp add: einfo_calls)

lemma esearch_sent:
  "s_retmode p = Some JSON \<Longrightarrow>
   snd (last (calls (snd (esearch v fmt c p))))
     = model_dump_exclude_none (ESearchRequest_fields p)"
  by (simp add: esearch_calls)

lemma einfo_result_needs_json: "fst (einfo v fmt c p) = Inr r \<Longrightarrow> retmode p = Some JSON"
  by (cases "retmode p = Some JSON") (simp_all add: einfo_rejected)

lemma esearch_result_needs_json: "fst (esearch v fmt c p) = Inr r \<Longrightarrow> s_retmode p = Some JSON"
  by (cases "s_retmode p = Some JSON") (simp_all add: esearch_rejected)

subsection \<open>The dump of a request\<close>

lemma map_of_dump:
  "distinct (map fst fs) \<Longrightarrow>
   map_of (model_dump_exclude_none fs) k =
     (case map_of fs k of Some (Some v) \<Rightarrow> Some v | _ \<Rightarrow> None)"
proof (induction fs rule: model_dump_exclude_none.induct)
  case 1
  then show ?case by simp
next
  case (2 k' fs)
  then have "map_of fs k' = None"
    by (simp add: map_of_eq_None_iff)
  with 2 show ?case by simp
next
  case (3 k' v fs)
  then show ?case by simp
qed

lemma distinct_EInfoRequest_fields: "distinct (map fst (EInfoRequest_fields p))"
  by (simp add: EInfoRequest_fields_def)

lemma distinct_ESearchRequest_fields: "distinct (map fst (ESearchRequest_fields p))"
  by (simp add: ESearchRequest_fields_def)

text \<open>
  A request that passes the check of the return mode holds the mode JSON, which is not
  None: the dump that is sent always has the key \<open>retmode\<close>.
\<close>

lemma accepted_dump_has_retmode:
  "retmode p = Some JSON \<Longrightarrow>
   map_of (model_dump_exclude_none (EInfoRequest_fields p)) ''retmode'' = Some (PyRetMode JSON)"
  "s_retmode q = Some JSON \<Longrightarrow>
   map_of (model_dump_exclude_none (ESearchRequest_fields q)) ''retmode'' = Some (PyRetMode JSON)"
  by (simp_all add: map_of_dump distinct_EInfoRequest_fields distinct_ESearchRequest_fields)
     (simp_all add: EInfoRequest_fields_def ESearchRequest_fields_def)

section \<open>The claims\<close>

text \<open>
  Claim C1. A request whose return mode is set and is not JSON makes \<open>einfo\<close> and \<open>esearch\<close>
  fail at once with a \<open>ValueError\<close> whose message names the endpoint (\<open>EInfo\<close>, \<open>ESearch\<close>)
  and the rejected mode; the client comes back as it was, so no GET was issued.
\<close>

theorem unsupported_mode_rejected_before_transport:
  "(retmode p = Some m \<and> m \<noteq> JSON \<longrightarrow>
      einfo v fmt c p =
        (Inl (ValueError (''We only support '' @ fmt JSON @ '' return mode for '' @ ''EInfo''
                @ '' at this time. You provided '' @ fmt m @ ''.'')), c))
   \<and> (s_retmode q = Some m \<and> m \<noteq> JSON \<longrightarrow>
      esearch v fmt c q =
        (Inl (ValueError (''We only support '' @ fmt JSON @ '' return mode for '' @ ''ESearch''
                @ '' at this time. You provided '' @ fmt m @ ''.'')), c))"
  by (simp add: einfo_rejected esearch_rejected)

theorem unsupported_mode_rejected_before_transport_witness:
  "einfo accept_nonempty mode_name (fixed_client (Inl ''unreachable''))
       \<lparr>db = None, version = None, retmode = Some XML\<rparr>
     = (Inl (ValueError
          ''We only support json return mode for EInfo at this time. You provided xml.''),
        fixed_client (Inl ''unreachable''))
   \<and> esearch accept_nonempty mode_name (fixed_client (Inl ''unreachable''))
       \<lparr>s_db = None, s_term = Some ''asthma'', s_retmode = Some XML, s_retstart = None,
        s_retmax = None, s_datetype = None, s_mindate = None, s_maxdate = None,
        s_usehistory = None\<rparr>
     = (Inl (ValueError
          ''We only support json return mode for ESearch at this time. You provided xml.''),
        fixed_client (Inl ''unreachable''))"
  using unsupported_mode_rejected_before_transport
    [where p = "\<lparr>db = None, version = None, retmode = Some XML\<rparr>" and m = XML
       and v = accept_nonempty and fmt = mode_name and c = "fixed_client (Inl ''unreachable'')"
       and q = "\<lparr>s_db = None, s_term = Some ''asthma'', s_retmode = Some XML,
        s_retstart = None, s_retmax = None, s_datetype = None, s_mindate = None,
        s_maxdate = None, s_usehistory = None\<rparr>"]
  by (simp add: mode_name_def)

text \<open>
  Claim C2, as it is written: no unset field appears in the outgoing parameters, and only
  fields that were explicitly provided are transmitted. \<open>EInfoRequest()\<close> provides no
  field, and the request that \<open>einfo\<close> issues for it carries the parameter \<open>retmode\<close>: the
  field holds its default, JSON, and \<open>exclude_none\<close> leaves out None only.
\<close>

theorem unprovided_retmode_sent_counterexample:
  "\<not> map_of (snd (last (calls (snd (einfo accept_nonempty mode_name
          (fixed_client (Inr \<lparr>status_code = 200, body_text = ''{}''\<rparr>))
          EInfoRequest_default))))) ''retmode'' = None"
  by (simp add: einfo_sent EInfoRequest_default_def EInfoRequest_fields_def)

text \<open>
  Claim C2, amended. In the request that \<open>einfo\<close> or \<open>esearch\<close> issues, no field that holds
  None appears among the query parameters, and a parameter is transmitted with a value
  exactly when the field of that name holds this value, whether the caller provided it or
  it is the default of the field; the return mode, JSON, is transmitted with every request.
\<close>

theorem sent_params_are_fields_with_values:
  "(retmode p = Some JSON \<longrightarrow>
      (\<forall>k. map_of (EInfoRequest_fields p) k = Some None \<longrightarrow>
          map_of (snd (last (calls (snd (einfo v fmt c p))))) k = None)
      \<and> (\<forall>k x. map_of (snd (last (calls (snd (einfo v fmt c p))))) k = Some x \<longleftrightarrow>
          map_of (EInfoRequest_fields p) k = Some (Some x))
      \<and> map_of (snd (last (calls (snd (einfo v fmt c p))))) ''retmode'' = Some (PyRetMode JSON))
   \<and> (s_retmode q = Some JSON \<longrightarrow>
      (\<forall>k. map_of (ESearchRequest_fields q) k = Some None \<longrightarrow>
          map_of (snd (last (calls (snd (esearch v' fmt c q))))) k = None)
      \<and> (\<forall>k x. map_of (snd (last (calls (snd (esearch v' fmt c q))))) k = Some x \<longleftrightarrow>
          map_of (ESearchRequest_fields q) k = Some (Some x))
      \<and> map_of (snd (last (calls (snd (esearch v' fmt c q))))) ''retmode''
          = Some (PyRetMode JSON))"
proof (intro conjI impI)
  assume j: "retmode p = Some JSON"
  have e: "map_of (snd (last (calls (snd (einfo v fmt c p))))) k =
     (case map_of (EInfoRequest_fields p) k of Some (Some y) \<Rightarrow> Some y | _ \<Rightarrow> None)" for k
    using j by (simp add: einfo_sent map_of_dump [OF distinct_EInfoRequest_fields])
  show "\<forall>k. map_of (EInfoRequest_fields p) k = Some None \<longrightarrow>
          map_of (snd (last (calls (snd (einfo v fmt c p))))) k = None"
    by (simp add: e)
  show "\<forall>k x. map_of (snd (last (calls (snd (einfo v fmt c p))))) k = Some x \<longleftrightarrow>
          map_of (EInfoRequest_fields p) k = Some (Some x)"
    by (auto simp add: e split: option.splits)
  show "map_of (snd (last (calls (snd (einfo v fmt c p))))) ''retmode'' = Some (PyRetMode JSON)"
    using j by (simp add: e) (simp add: EInfoRequest_fields_def)
next
  assume j: "s_retmode q = Some JSON"
  have s: "map_of (snd (last (calls (snd (esearch v' fmt c q))))) k =
     (case map_of (ESearchRequest_fields q) k of Some (Some y) \<Rightarrow> Some y | _ \<Rightarrow> None)" for k
    using j by (simp add: esearch_sent map_of_dump [OF distinct_ESearchRequest_fields])
  show "\<forall>k. map_of (ESearchRequest_fields q) k = Some None \<longrightarrow>
          map_of (snd (last (calls (snd (esearch v' fmt c q))))) k = None"
    by (simp add: s)
  show "\<forall>k x. map_of (snd (last (calls (snd (esearch v' fmt c q))))) k = Some x \<longleftrightarrow>
          map_of (ESearchRequest_fields q) k = Some (Some x)"
    by (auto simp add: s split: option.splits)
  show "map_of (snd (last (calls (snd (esearch v' fmt c q))))) ''retmode'' = Some (PyRetMode JSON)"
    using j by (simp add: s) (simp add: ESearchRequest_fields_def)
qed

theorem sent_params_are_fields_with_values_witness:
  "map_of (EInfoRequest_fields EInfoRequest_default) ''version'' = Some None
   \<and> map_of (snd (last (calls (snd (einfo accept_nonempty mode_name
          (fixed_client (Inr \<lparr>status_code = 200, body_text = ''{}''\<rparr>))
          EInfoRequest_default))))) ''version'' = None
   \<and> map_of (snd (last (calls (snd (einfo accept_nonempty mode_name
          (fixed_client (Inr \<lparr>status_code = 200, body_text = ''{}''\<rparr>))
          EInfoRequest_default))))) ''retmode'' = Some (PyRetMode JSON)
   \<and> map_of (ESearchRequest_fields search_request) ''mindate'' = Some None
   \<and> map_of (snd (last (calls (snd (esearch accept_nonempty mode_name
          (fixed_client (Inr \<lparr>status_code = 200, body_text = ''{}''\<rparr>))
          search_request))))) ''mindate'' = None
   \<and> map_of (snd (last (calls (snd (esearch accept_nonempty mode_name
          (fixed_client (Inr \<lparr>status_code = 200, body_text = ''{}''\<rparr>))
          search_request))))) ''retmax'' = Some (PyInt 20)"
  using sent_params_are_fields_with_values
    [where p = EInfoRequest_default and q = search_request and v = accept_nonempty
       and v' = accept_nonempty and fmt = mode_name
       and c = "fixed_client (Inr \<lparr>status_code = 200, body_text = ''{}''\<rparr>)"]
  by (simp add: EInfoRequest_fields_def ESearchRequest_fields_def EInfoRequest_default_def
      search_request_def)

text \<open>
  Claim C3, as it is written: \<open>EInfoRequest()\<close> dumps to the empty set of query parameters
  and \<open>ESearchRequest(term="asthma")\<close> to the one parameter \<open>term\<close>. The return mode of
  \<open>EInfoRequest()\<close> is JSON, not None, so \<open>exclude_none\<close> keeps it: the dump is not empty.
\<close>

theorem empty_dump_counterexample:
  "\<not> (model_dump_exclude_none (EInfoRequest_fields EInfoRequest_default) = []
      \<and> model_dump_exclude_none (ESearchRequest_fields (ESearchRequest_of_term ''asthma''))
          = [(''term'', PyStr ''asthma'')])"
  by (simp add: EInfoRequest_default_def EInfoRequest_fields_def)

text \<open>
  Claim C3, amended. \<open>EInfoRequest()\<close> dumps to exactly the parameter \<open>retmode\<close> with the
  value JSON, and \<open>ESearchRequest(term="asthma")\<close> to exactly \<open>term\<close> with the value
  \<open>asthma\<close> and \<open>retmode\<close> with the value JSON.
\<close>

theorem default_requests_dump:
  "model_dump_exclude_none (EInfoRequest_fields EInfoRequest_default)
     = [(''retmode'', PyRetMode JSON)]
   \<and> model_dump_exclude_none (ESearchRequest_fields (ESearchRequest_of_term ''asthma''))
     = [(''term'', PyStr ''asthma''), (''retmode'', PyRetMode JSON)]"
  by (simp add: EInfoRequest_default_def EInfoRequest_fields_def ESearchRequest_of_term_def
      ESearchRequest_fields_def)

text \<open>
  Claim C4. When the answer to the GET is a response with a status from 400 to 599,
  \<open>einfo\<close> and \<open>esearch\<close> fail with the \<open>HTTPStatusError\<close> that holds this response, its
  status and its body; the body and the response model play no part, and no value is
  returned.
\<close>

theorem failure_status_raises:
  "(retmode p = Some JSON
      \<and> handler c (BASE_URL @ ''/einfo.fcgi'') (model_dump_exclude_none (EInfoRequest_fields p))
          = Inr resp
      \<and> 400 \<le> status_code resp \<and> status_code resp \<le> 599
    \<longrightarrow> fst (einfo v fmt c p) = Inl (HTTPStatusError resp))
   \<and> (s_retmode q = Some JSON
      \<and> handler c (BASE_URL @ ''/esearch.fcgi'')
            (model_dump_exclude_none (ESearchRequest_fields q))
          = Inr resp
      \<and> 400 \<le> status_code resp \<and> status_code resp \<le> 599
    \<longrightarrow> fst (esearch v fmt c q) = Inl (HTTPStatusError resp))"
  by (simp add: einfo_accepted esearch_accepted)

theorem failure_status_raises_witness:
  "fst (einfo accept_nonempty mode_name
          (fixed_client (Inr \<lparr>status_code = 404, body_text = ''Not Found''\<rparr>)) info_request)
     = Inl (HTTPStatusError \<lparr>status_code = 404, body_text = ''Not Found''\<rparr>)
   \<and> fst (esearch accept_nonempty mode_name
          (fixed_client (Inr \<lparr>status_code = 404, body_text = ''Not Found''\<rparr>)) search_request)
     = Inl (HTTPStatusError \<lparr>status_code = 404, body_text = ''Not Found''\<rparr>)"
  using failure_status_raises
    [where p = info_request and q = search_request and v = accept_nonempty and fmt = mode_name
       and c = "fixed_client (Inr \<lparr>status_code = 404, body_text = ''Not Found''\<rparr>)"
       and resp = "\<lparr>status_code = 404, body_text = ''Not Found''\<rparr>"]
  by (simp add: fixed_client_def info_request_def search_request_def)

text \<open>
  Claim C5. When the answer is a response with a success status whose body the response
  model rejects, \<open>einfo\<close> and \<open>esearch\<close> fail with the validation error of the model; no
  response object is returned.
\<close>

theorem nonconforming_body_raises:
  "(retmode p = Some JSON
      \<and> handler c (BASE_URL @ ''/einfo.fcgi'') (model_dump_exclude_none (EInfoRequest_fields p))
          = Inr resp
      \<and> 200 \<le> status_code resp \<and> status_code resp \<le> 299
      \<and> v (body_text resp) = Inl e
    \<longrightarrow> fst (einfo v fmt c p) = Inl (ValidationError e))
   \<and> (s_retmode q = Some JSON
      \<and> handler c (BASE_URL @ ''/esearch.fcgi'')
            (model_dump_exclude_none (ESearchRequest_fields q))
          = Inr resp
      \<and> 200 \<le> status_code resp \<and> status_code resp \<le> 299
      \<and> v (body_text resp) = Inl e
    \<longrightarrow> fst (esearch v fmt c q) = Inl (ValidationError e))"
  by (simp add: einfo_accepted esearch_accepted)

theorem nonconforming_body_raises_witness:
  "fst (einfo accept_nonempty mode_name
          (fixed_client (Inr \<lparr>status_code = 200, body_text = []\<rparr>)) info_request)
     = Inl (ValidationError ''empty body'')
   \<and> fst (esearch accept_nonempty mode_name
          (fixed_client (Inr \<lparr>status_code = 200, body_text = []\<rparr>)) search_request)
     = Inl (ValidationError ''empty body'')"
  using nonconforming_body_raises
    [where p = info_request and q = search_request and v = accept_nonempty and fmt = mode_name
       and c = "fixed_client (Inr \<lparr>status_code = 200, body_text = []\<rparr>)"
       and resp = "\<lparr>status_code = 200, body_text = []\<rparr>" and e = "''empty body''"]
  by (simp add: fixed_client_def info_request_def search_request_def accept_nonempty_def)

text \<open>
  Claim C6. A call that reaches the GET issues it to
  \<open>https://eutils.ncbi.nlm.nih.gov/entrez/eutils/einfo.fcgi\<close> (for \<open>einfo\<close>) and to
  \<open>https://eutils.ncbi.nlm.nih.gov/entrez/eutils/esearch.fcgi\<close> (for \<open>esearch\<close>), with the
  dump of the request as query parameters.
\<close>

theorem get_url_and_params:
  "(retmode p = Some JSON \<longrightarrow>
      calls (snd (einfo v fmt c p)) = calls c @
        [(''https://eutils.ncbi.nlm.nih.gov/entrez/eutils/einfo.fcgi'',
          model_dump_exclude_none (EInfoRequest_fields p))])
   \<and> (s_retmode q = Some JSON \<longrightarrow>
      calls (snd (esearch v fmt c q)) = calls c @
        [(''https://eutils.ncbi.nlm.nih.gov/entrez/eutils/esearch.fcgi'',
          model_dump_exclude_none (ESearchRequest_fields q))])"
  by (simp add: einfo_accepted esearch_accepted BASE_URL_def)

theorem get_url_and_params_witness:
  "calls (snd (einfo accept_nonempty mode_name
          (fixed_client (Inr \<lparr>status_code = 200, body_text = ''{}''\<rparr>)) info_request))
     = [(''https://eutils.ncbi.nlm.nih.gov/entrez/eutils/einfo.fcgi'',
         [(''db'', PyStr ''pubmed''), (''retmode'', PyRetMode JSON)])]
   \<and> calls (snd (esearch accept_nonempty mode_name
          (fixed_client (Inr \<lparr>status_code = 200, body_text = ''{}''\<rparr>)) search_request))
     = [(''https://eutils.ncbi.nlm.nih.gov/entrez/eutils/esearch.fcgi'',
         [(''term'', PyStr ''asthma''), (''retmode'', PyRetMode JSON), (''retmax'', PyInt 20)])]"
  using get_url_and_params
    [where p = info_request and q = search_request and v = accept_nonempty and fmt = mode_name
       and c = "fixed_client (Inr \<lparr>status_code = 200, body_text = ''{}''\<rparr>)"]
  by (simp add: fixed_client_def info_request_def search_request_def
      EInfoRequest_fields_def ESearchRequest_fields_def)

text \<open>
  Claim C7. A call of \<open>einfo\<close> or \<open>esearch\<close> issues at most one GET; it issues exactly one
  when the return mode passes the check (no second request is ever made), and a call that
  returns a response model has issued one (no result comes without a request).
\<close>

theorem one_get_per_call:
  "length (calls (snd (einfo v fmt c p))) \<le> length (calls c) + 1
   \<and> (retmode p = Some JSON \<longrightarrow>
        length (calls (snd (einfo v fmt c p))) = length (calls c) + 1)
   \<and> (fst (einfo v fmt c p) = Inr r \<longrightarrow>
        length (calls (snd (einfo v fmt c p))) = length (calls c) + 1)
   \<and> length (calls (snd (esearch v' fmt c q))) \<le> length (calls c) + 1
   \<and> (s_retmode q = Some JSON \<longrightarrow>
        length (calls (snd (esearch v' fmt c q))) = length (calls c) + 1)
   \<and> (fst (esearch v' fmt c q) = Inr r' \<longrightarrow>
        length (calls (snd (esearch v' fmt c q))) = length (calls c) + 1)"
  using einfo_result_needs_json [of v fmt c p r] esearch_result_needs_json [of v' fmt c q r']
  by (simp add: einfo_calls esearch_calls)

theorem one_get_per_call_witness:
  "length (calls (snd (einfo accept_nonempty mode_name
          (fixed_client (Inr \<lparr>status_code = 200, body_text = ''{}''\<rparr>)) info_request))) = 1
   \<and> fst (einfo accept_nonempty mode_name
          (fixed_client (Inr \<lparr>status_code = 200, body_text = ''{}''\<rparr>)) info_request)
       = Inr ''{}''
   \<and> length (calls (snd (esearch accept_nonempty mode_name
          (fixed_client (Inr \<lparr>status_code = 200, body_text = ''{}''\<rparr>)) search_request))) = 1
   \<and> fst (esearch accept_nonempty mode_name
          (fixed_client (Inr \<lparr>status_code = 200, body_text = ''{}''\<rparr>)) search_request)
       = Inr ''{}''"
  using one_get_per_call
    [where p = info_request and q = search_request and v = accept_nonempty
       and v' = accept_nonempty and fmt = mode_name and r = "''{}''" and r' = "''{}''"
       and c = "fixed_client (Inr \<lparr>status_code = 200, body_text = ''{}''\<rparr>)"]
  by (simp add: fixed_client_def info_request_def search_request_def accept_nonempty_def
      einfo_accepted esearch_accepted)




text \<open>
  Claim C9. When the return mode is JSON, the answer is a response with a success status
  and the response model accepts the body, \<open>einfo\<close> and \<open>esearch\<close> return the object the
  model built from the body, as it is.
\<close>

theorem validated_model_returned:
  "(retmode p = Some JSON
      \<and> handler c (BASE_URL @ ''/einfo.fcgi'') (model_dump_exclude_none (EInfoRequest_fields p))
          = Inr resp
      \<and> 200 \<le> status_code resp \<and> status_code resp \<le> 299
      \<and> v (body_text resp) = Inr r
    \<longrightarrow> fst (einfo v fmt c p) = Inr r)
   \<and> (s_retmode q = Some JSON
      \<and> handler c (BASE_URL @ ''/esearch.fcgi'')
            (model_dump_exclude_none (ESearchRequest_fields q))
          = Inr resp
      \<and> 200 \<le> status_code resp \<and> status_code resp \<le> 299
      \<and> v (body_text resp) = Inr r
    \<longrightarrow> fst (esearch v fmt c q) = Inr r)"
  by (simp add: einfo_accepted esearch_accepted)

theorem validated_model_returned_witness:
  "fst (einfo accept_nonempty mode_name
          (fixed_client (Inr \<lparr>status_code = 200, body_text = ''{}''\<rparr>)) info_request)
     = Inr ''{}''
   \<and> fst (esearch accept_nonempty mode_name
          (fixed_client (Inr \<lparr>status_code = 200, body_text = ''{}''\<rparr>)) search_request)
     = Inr ''{}''"
  using validated_model_returned
    [where p = info_request and q = search_request and v = accept_nonempty and fmt = mode_name
       and c = "fixed_client (Inr \<lparr>status_code = 200, body_text = ''{}''\<rparr>)"
       and resp = "\<lparr>status_code = 200, body_text = ''{}''\<rparr>" and r = "''{}''"]
  by (simp add: fixed_client_def info_request_def search_request_def accept_nonempty_def)

text \<open>
  Claim C10. A request whose return mode is None is rejected by \<open>einfo\<close> and \<open>esearch\<close> with
  the same \<open>ValueError\<close> as a mode other than JSON (the message ends in "You provided
  None."), the client coming back as it was; a call issues a request exactly when the
  return mode is JSON.
\<close>

theorem unset_mode_rejected:
  "(retmode p = None \<longrightarrow>
      einfo v fmt c p =
        (Inl (ValueError (''We only support '' @ fmt JSON
                @ '' return mode for EInfo at this time. You provided None.'')), c))
   \<and> (calls (snd (einfo v fmt c p)) \<noteq> calls c \<longleftrightarrow> retmode p = Some JSON)
   \<and> (s_retmode q = None \<longrightarrow>
      esearch v' fmt c q =
        (Inl (ValueError (''We only support '' @ fmt JSON
                @ '' return mode for ESearch at this time. You provided None.'')), c))
   \<and> (calls (snd (esearch v' fmt c q)) \<noteq> calls c \<longleftrightarrow> s_retmode q = Some JSON)"
  by (simp add: einfo_calls esearch_calls einfo_rejected esearch_rejected)

theorem unset_mode_rejected_witness:
  "einfo accept_nonempty mode_name (fixed_client (Inl ''unreachable''))
       \<lparr>db = Some ''pubmed'', version = None, retmode = None\<rparr>
     = (Inl (ValueError
          ''We only support json return mode for EInfo at this time. You provided None.''),
        fixed_client (Inl ''unreachable''))
   \<and> esearch accept_nonempty mode_name (fixed_client (Inl ''unreachable''))
       \<lparr>s_db = None, s_term = Some ''asthma'', s_retmode = None, s_retstart = None,
        s_retmax = None, s_datetype = None, s_mindate = None, s_maxdate = None,
        s_usehistory = None\<rparr>
     = (Inl (ValueError
          ''We only support json return mode for ESearch at this time. You provided None.''),
        fixed_client (Inl ''unreachable''))"
  using unset_mode_rejected
    [where p = "\<lparr>db = Some ''pubmed'', version = None, retmode = None\<rparr>"
       and v = accept_nonempty and v' = accept_nonempty and fmt = mode_name
       and c = "fixed_client (Inl ''unreachable'')"
       and q = "\<lparr>s_db = None, s_term = Some ''asthma'', s_retmode = None, s_retstart = None,
        s_retmax = None, s_datetype = None, s_mindate = None, s_maxdate = None,
        s_usehistory = None\<rparr>"]
  by (simp add: mode_name_def)

end
